theory Spec2Isabelle
  imports Main "HOL-Library.AList"
begin

section \<open>JSON values and the JavaScript object operations the transformer uses\<close>

text \<open>
  The transformer of \<^verbatim>\<open>api-gateway-integrations.ts\<close> rewrites an OpenAPI document, which is
  JSON data. A JSON object is an association list of its own properties in enumeration
  order; its keys are distinct. The numbers of a document are only copied and tested for
  truthiness; they are restricted to integers.

  A lookup by a name the caller chooses (the operation identifier, in the integrations
  mapping) also finds the properties every object inherits from \<^verbatim>\<open>Object.prototype\<close>. The
  other keys the source reads are not names of inherited properties: the HTTP methods,
  \<^verbatim>\<open>responses\<close>, \<^verbatim>\<open>headers\<close>, and the keys of the reverse index, which
  \<^verbatim>\<open>concatMethodAndPath\<close> builds from a method and a path.
\<close>

datatype json =
    JNull
  | JBool bool
  | JNum int
  | JStr string
  | JArr "json list"
  | JObj "(string \<times> json) list"

type_synonym jsobject = "(string \<times> json) list"

text \<open>What the transformer throws: \<^verbatim>\<open>new Error(message)\<close>, or the runtime's TypeError.\<close>

datatype error = Error string | TypeError

text \<open>Decimal rendering of a number in a template literal.\<close>

function show_nat :: "nat \<Rightarrow> string" where
  "show_nat n =
     (if n < 10 then [''0123456789'' ! n]
      else show_nat (n div 10) @ [''0123456789'' ! (n mod 10)])"
  by pat_completeness auto
termination
  by (relation "measure id") auto

declare show_nat.simps [simp del]

text \<open>
  A number the source prints, the status code of a CORS policy, is represented by the text
  \<^verbatim>\<open>String(n)\<close> gives for it: the decimal digits of an integer below \<^verbatim>\<open>1e21\<close>, the exponent
  form of a larger one, \<^verbatim>\<open>NaN\<close>. That text determines the number up to the sign of zero,
  and the source only prints the number and tests its truthiness: the falsy numbers are
  zero and NaN.
\<close>

datatype js_number = Number string

fun number_toString :: "js_number \<Rightarrow> string" where
  "number_toString (Number s) = s"

fun number_truthy :: "js_number \<Rightarrow> bool" where
  "number_truthy (Number s) = (s \<noteq> ''0'' \<and> s \<noteq> ''NaN'')"

text \<open>\<^verbatim>\<open>Array.prototype.join\<close> on an array of strings.\<close>

fun join :: "string \<Rightarrow> string list \<Rightarrow> string" where
  "join sep [] = []"
| "join sep [x] = x"
| "join sep (x # y # ys) = x @ sep @ join sep (y # ys)"

text \<open>
  A value that may be \<^verbatim>\<open>undefined\<close> is a \<open>json option\<close>. Truthiness, as
  \<^verbatim>\<open>filter((method) => pathItem[method])\<close> and \<^verbatim>\<open>||\<close> test it.
\<close>

fun js_truthy :: "json option \<Rightarrow> bool" where
  "js_truthy None = False"
| "js_truthy (Some JNull) = False"
| "js_truthy (Some (JBool b)) = b"
| "js_truthy (Some (JNum n)) = (n \<noteq> 0)"
| "js_truthy (Some (JStr s)) = (s \<noteq> [])"
| "js_truthy (Some (JArr xs)) = True"
| "js_truthy (Some (JObj kvs)) = True"

text \<open>
  The own enumerable properties of a value, as object spread and \<^verbatim>\<open>Object.entries\<close>
  enumerate them: an object's entries, the indexed elements of an array or string, nothing
  for the other primitives.
\<close>

fun js_entries :: "json \<Rightarrow> jsobject" where
  "js_entries (JObj kvs) = kvs"
| "js_entries (JArr xs) = zip (map show_nat [0..<length xs]) xs"
| "js_entries (JStr s) = zip (map show_nat [0..<length s]) (map (\<lambda>c. JStr [c]) s)"
| "js_entries v = []"

text \<open>Spread of a value that may be undefined: \<^verbatim>\<open>{...undefined}\<close> adds nothing.\<close>

definition spread_entries :: "json option \<Rightarrow> jsobject" where
  "spread_entries v = (case v of None \<Rightarrow> [] | Some x \<Rightarrow> js_entries x)"

text \<open>The property read \<^verbatim>\<open>v[k]\<close> on a value other than null.\<close>

fun js_prop :: "json \<Rightarrow> string \<Rightarrow> json option" where
  "js_prop (JObj kvs) k = map_of kvs k"
| "js_prop (JArr xs) k =
     (if k = ''length'' then Some (JNum (int (length xs))) else map_of (js_entries (JArr xs)) k)"
| "js_prop (JStr s) k =
     (if k = ''length'' then Some (JNum (int (length s))) else map_of (js_entries (JStr s)) k)"
| "js_prop v k = None"

text \<open>\<^verbatim>\<open>k in v\<close>: a TypeError unless \<open>v\<close> is an object or an array.\<close>

fun js_in :: "string \<Rightarrow> json \<Rightarrow> error + bool" where
  "js_in k (JObj kvs) = Inr (k \<in> set (map fst kvs))"
| "js_in k (JArr xs) = Inr (k = ''length'' \<or> k \<in> set (map show_nat [0..<length xs]))"
| "js_in k v = Inl TypeError"

text \<open>\<^verbatim>\<open>Object.entries(v)\<close>: a TypeError on undefined and null.\<close>

fun object_entries :: "json option \<Rightarrow> error + jsobject" where
  "object_entries None = Inl TypeError"
| "object_entries (Some JNull) = Inl TypeError"
| "object_entries (Some v) = Inr (js_entries v)"

text \<open>
  Writing the entries \<open>src\<close> into the object \<open>obj\<close>, in order: a key already there keeps
  its place and takes the new value, a new key is appended. This is what a spread
  \<^verbatim>\<open>{...obj, ...src}\<close> and \<^verbatim>\<open>Object.fromEntries\<close> do; a later entry wins.
\<close>

definition spread :: "('k \<times> 'v) list \<Rightarrow> ('k \<times> 'v) list \<Rightarrow> ('k \<times> 'v) list" where
  "spread obj src = fold (\<lambda>(k, v). AList.update k v) src obj"

definition fromEntries :: "('k \<times> 'v) list \<Rightarrow> ('k \<times> 'v) list" where
  "fromEntries es = spread [] es"

text \<open>\<^verbatim>\<open>Array.prototype.map\<close> with a callback that may throw: the first throw aborts.\<close>

fun array_map :: "('a \<Rightarrow> error + 'b) \<Rightarrow> 'a list \<Rightarrow> error + 'b list" where
  "array_map f [] = Inr []"
| "array_map f (x # xs) =
     (case f x of
        Inl e \<Rightarrow> Inl e
      | Inr y \<Rightarrow> (case array_map f xs of Inl e \<Rightarrow> Inl e | Inr ys \<Rightarrow> Inr (y # ys)))"

text \<open>
  A string that may be undefined, used as a property key or inside a template literal:
  undefined becomes the text \<^verbatim>\<open>undefined\<close>.
\<close>

definition js_string :: "string option \<Rightarrow> string" where
  "js_string s = (case s of None \<Rightarrow> ''undefined'' | Some x \<Rightarrow> x)"

section \<open>Options of the transformer\<close>

text \<open>Opaque handles of the provisioning framework, identified by a token.\<close>

datatype ifunction = IFunction string

datatype construct = Construct string

text \<open>
  Modelled from the spec: the authorizer types of \<^verbatim>\<open>../authorizers\<close> are not under src.
  An authorizer is one of the variants None, IAM and Custom (backend handle, authorizer
  identifier); \<^verbatim>\<open>Authorizers.none()\<close> is the built-in no-authorization variant.
\<close>

datatype authorizer =
    NoneAuthorizer
  | IamAuthorizer
  | CustomAuthorizer ifunction string

definition Authorizers_none :: authorizer where
  "Authorizers_none = NoneAuthorizer"

text \<open>
  Modelled from the spec: \<^verbatim>\<open>applyMethodAuthorizer\<close> of \<^verbatim>\<open>./api-gateway-auth\<close> is not under
  src. It produces the security-requirement fragment of an operation: an explicit
  no-security marker for None, the AWS SigV4 requirement for IAM, a reference to the
  scheme named by the authorizer identifier for Custom.
\<close>

fun applyMethodAuthorizer :: "authorizer \<Rightarrow> jsobject" where
  "applyMethodAuthorizer NoneAuthorizer = [(''security'', JArr [])]"
| "applyMethodAuthorizer IamAuthorizer =
     [(''security'', JArr [JObj [(''aws.auth.sigv4'', JArr [])]])]"
| "applyMethodAuthorizer (CustomAuthorizer f authorizerId) =
     [(''security'', JArr [JObj [(authorizerId, JArr [])]])]"

record OpenApiIntegration =
  integration_function :: ifunction
  integration_authorizer :: "authorizer option"

record MethodAndPath =
  mp_path :: string
  mp_method :: string

record CorsOptions =
  allowOrigins :: "string list"
  allowHeaders :: "string list option"
  allowMethods :: "string list option"
  statusCode :: "js_number option"

text \<open>
  The options as \<^verbatim>\<open>applyMethodIntegration\<close> and \<^verbatim>\<open>prepareApiSpec\<close> read them. The two
  mappings are association lists in the enumeration order of \<^verbatim>\<open>Object.entries\<close>.
\<close>

record OpenApiOptions =
  integrations :: "(string \<times> OpenApiIntegration) list"
  operationLookup :: "(string \<times> MethodAndPath) list"
  defaultAuthorizer :: "authorizer option"
  corsOptions :: "CorsOptions option"

text \<open>Constants of the libraries the source imports.\<close>

definition HttpMethods :: "string list" where
  "HttpMethods =
     [''get'', ''put'', ''post'', ''delete'', ''options'', ''head'', ''patch'', ''trace'']"

definition HttpMethods_OPTIONS :: string where
  "HttpMethods_OPTIONS = ''options''"

definition Cors_DEFAULT_HEADERS :: "string list" where
  "Cors_DEFAULT_HEADERS =
     [''Content-Type'', ''X-Amz-Date'', ''Authorization'', ''X-Api-Key'',
      ''X-Amz-Security-Token'', ''X-Amz-User-Agent'']"

definition Cors_ALL_METHODS :: "string list" where
  "Cors_ALL_METHODS = [''OPTIONS'', ''GET'', ''PUT'', ''POST'', ''DELETE'', ''PATCH'', ''HEAD'']"

section \<open>CORS fragments\<close>

definition getCorsHeaderDefinitions :: jsobject where
  "getCorsHeaderDefinitions =
     [(''Access-Control-Allow-Origin'', JObj [(''schema'', JObj [(''type'', JStr ''string'')])]),
      (''Access-Control-Allow-Methods'', JObj [(''schema'', JObj [(''type'', JStr ''string'')])]),
      (''Access-Control-Allow-Headers'', JObj [(''schema'', JObj [(''type'', JStr ''string'')])])]"

text \<open>A list joined by commas between single quotes.\<close>

definition quoted_list :: "string list \<Rightarrow> string" where
  "quoted_list xs = [CHR 0x27] @ join '','' xs @ [CHR 0x27]"

definition generateCorsResponseHeaders :: "CorsOptions \<Rightarrow> (string \<times> string) list" where
  "generateCorsResponseHeaders c =
     [(''Access-Control-Allow-Headers'',
         quoted_list (case allowHeaders c of Some hs \<Rightarrow> hs | None \<Rightarrow> Cors_DEFAULT_HEADERS)),
      (''Access-Control-Allow-Methods'',
         quoted_list (case allowMethods c of Some ms \<Rightarrow> ms | None \<Rightarrow> Cors_ALL_METHODS)),
      (''Access-Control-Allow-Origin'', quoted_list (allowOrigins c))]"

definition generateCorsResponseParameters :: "CorsOptions \<Rightarrow> string \<Rightarrow> jsobject" where
  "generateCorsResponseParameters c prefix =
     fromEntries
       (map (\<lambda>(header, v). (prefix @ ''.'' @ header, JStr v)) (generateCorsResponseHeaders c))"

text \<open>\<^verbatim>\<open>corsOptions.statusCode || 204\<close>: the default replaces every falsy status code.\<close>

definition cors_status :: "CorsOptions \<Rightarrow> js_number" where
  "cors_status c =
     (case statusCode c of
        None \<Rightarrow> Number ''204''
      | Some s \<Rightarrow> (if number_truthy s then s else Number ''204''))"

definition corsOptionsOperation :: "CorsOptions \<Rightarrow> json" where
  \<open>corsOptionsOperation c =
     JObj
       [(''summary'', JStr ''CORS Support''),
        (''description'', JStr ''Enable CORS by returning the correct headers''),
        (''responses'',
           JObj
             [(number_toString (cors_status c),
                 JObj
                   [(''description'', JStr ''Default response for CORS method''),
                    (''headers'', JObj getCorsHeaderDefinitions),
                    (''content'', JObj [])])]),
        (''x-amazon-apigateway-integration'',
           JObj
             [(''type'', JStr ''mock''),
              (''requestTemplates'',
                 JObj
                   [(''application/json'',
                       JStr (''{"statusCode": '' @ number_toString (cors_status c) @ ''}''))]),
              (''responses'',
                 JObj
                   [(''default'',
                       JObj
                         [(''statusCode'', JStr (number_toString (cors_status c))),
                          (''responseParameters'',
                             JObj (generateCorsResponseParameters c ''method.response.header'')),
                          (''responseTemplates'',
                             JObj [(''application/json'', JStr ''{}'')])])])])]\<close>

text \<open>
  Nothing is generated when the path item already has an \<^verbatim>\<open>options\<close> key or CORS is not
  enabled; the \<^verbatim>\<open>in\<close> test comes first and throws on a path item that is a primitive.
\<close>

definition generateCorsOptionsMethod :: "json \<Rightarrow> OpenApiOptions \<Rightarrow> error + jsobject" where
  "generateCorsOptionsMethod pathItem options =
     (case js_in HttpMethods_OPTIONS pathItem of
        Inl e \<Rightarrow> Inl e
      | Inr defined \<Rightarrow>
          (case corsOptions options of
             None \<Rightarrow> Inr []
           | Some c \<Rightarrow>
               if defined then Inr []
               else Inr [(HttpMethods_OPTIONS, corsOptionsOperation c)]))"

section \<open>Composing one method\<close>

text \<open>One response entry: the CORS header definitions first, the response's own headers over them.\<close>

definition composeResponse :: "bool \<Rightarrow> string \<times> json \<Rightarrow> error + (string \<times> json)" where
  "composeResponse cors entry =
     (case entry of
        (code, response) \<Rightarrow>
          (if response = JNull then Inl TypeError
           else
             Inr (code,
               JObj
                 (AList.update ''headers''
                    (JObj
                       (spread (spread [] (if cors then getCorsHeaderDefinitions else []))
                          (spread_entries (js_prop response ''headers''))))
                    (spread [] (js_entries response))))))"

text \<open>The names of the properties a plain object inherits from \<^verbatim>\<open>Object.prototype\<close>.\<close>

definition Object_prototype_names :: "string list" where
  "Object_prototype_names =
     [''constructor'', ''__defineGetter__'', ''__defineSetter__'', ''hasOwnProperty'',
      ''__lookupGetter__'', ''__lookupSetter__'', ''isPrototypeOf'', ''propertyIsEnumerable'',
      ''toString'', ''valueOf'', ''__proto__'', ''toLocaleString'']"

text \<open>
  \<^verbatim>\<open>operationName in integrations\<close> followed by
  \<^verbatim>\<open>const { authorizer, function: lambdaFunction } = integrations[operationName]\<close>.
  Nothing is found when the name is neither an own key nor an inherited one. An own entry
  gives its authorizer and its function. An inherited property is a built-in function or
  object, which has neither field: both come out undefined.
\<close>

definition destructureIntegration ::
  "(string \<times> OpenApiIntegration) list \<Rightarrow> string \<Rightarrow> (authorizer option \<times> ifunction option) option" where
  "destructureIntegration mapping operationName =
     (case map_of mapping operationName of
        Some integration \<Rightarrow>
          Some (integration_authorizer integration, Some (integration_function integration))
      | None \<Rightarrow>
          if operationName \<in> set Object_prototype_names then Some (None, None) else None)"

definition methodAuthorizer :: "authorizer option \<Rightarrow> OpenApiOptions \<Rightarrow> authorizer" where
  "methodAuthorizer authorizer options =
     (case authorizer of
        Some a \<Rightarrow> a
      | None \<Rightarrow> (case defaultAuthorizer options of Some d \<Rightarrow> d | None \<Rightarrow> Authorizers_none))"

text \<open>
  The object literal \<^verbatim>\<open>applyMethodIntegration\<close> returns: the operation's own fields, then
  the rewritten responses, the integration descriptor and the security fragment.
\<close>

definition composeOperation :: "json \<Rightarrow> jsobject \<Rightarrow> string \<Rightarrow> authorizer \<Rightarrow> json" where
  "composeOperation operation responses uri a =
     JObj
       (spread
          (AList.update ''x-amazon-apigateway-integration''
             (JObj
                [(''type'', JStr ''AWS_PROXY''),
                 (''httpMethod'', JStr ''POST''),
                 (''uri'', JStr uri),
                 (''passthroughBehavior'', JStr ''WHEN_NO_MATCH'')])
             (AList.update ''responses'' (JObj (fromEntries responses))
                (spread [] (js_entries operation))))
          (applyMethodAuthorizer a))"

text \<open>
  Modelled from the spec: \<^verbatim>\<open>functionInvocationUri\<close> of \<^verbatim>\<open>./utils\<close> is not under src. The
  invocation target is computed by reading the identity of the handle: on a function
  handle it is the parameter \<open>functionInvocationUri\<close>; on the undefined handle of an
  inherited property the read throws a TypeError.
\<close>

definition invocationUri ::
  "(construct \<Rightarrow> ifunction \<Rightarrow> string) \<Rightarrow> construct \<Rightarrow> ifunction option \<Rightarrow> error + string" where
  "invocationUri functionInvocationUri scope lambdaFunction =
     (case lambdaFunction of
        None \<Rightarrow> Inl TypeError
      | Some f \<Rightarrow> Inr (functionInvocationUri scope f))"

text \<open>Adds the API Gateway integration and the authorization to one operation.\<close>

definition applyMethodIntegration ::
  "(construct \<Rightarrow> ifunction \<Rightarrow> string) \<Rightarrow> construct \<Rightarrow> string \<Rightarrow> string \<Rightarrow> OpenApiOptions \<Rightarrow>
   json \<Rightarrow> (MethodAndPath \<Rightarrow> string option) \<Rightarrow> error + json" where
  "applyMethodIntegration functionInvocationUri scope path method options operation getOperationName =
     (let operationName = js_string (getOperationName \<lparr>mp_path = path, mp_method = method\<rparr>) in
      case destructureIntegration (integrations options) operationName of
        None \<Rightarrow>
          Inl (Error (''Missing required integration for operation '' @ operationName @
                      '' ('' @ method @ '' '' @ path @ '')''))
      | Some (authorizer, lambdaFunction) \<Rightarrow>
          (case invocationUri functionInvocationUri scope lambdaFunction of
             Inl e \<Rightarrow> Inl e
           | Inr uri \<Rightarrow>
               (case object_entries (js_prop operation ''responses'') of
                  Inl e \<Rightarrow> Inl e
                | Inr entries \<Rightarrow>
                    (case array_map (composeResponse (corsOptions options \<noteq> None)) entries of
                       Inl e \<Rightarrow> Inl e
                     | Inr responses \<Rightarrow>
                         Inr (composeOperation operation responses uri
                                (methodAuthorizer authorizer options))))))"

section \<open>Composing a path item\<close>

definition preparePathSpec ::
  "(construct \<Rightarrow> ifunction \<Rightarrow> string) \<Rightarrow> construct \<Rightarrow> string \<Rightarrow> json \<Rightarrow> OpenApiOptions \<Rightarrow>
   (MethodAndPath \<Rightarrow> string option) \<Rightarrow> error + json" where
  "preparePathSpec functionInvocationUri scope path pathItem options getOperationName =
     (if pathItem = JNull then Inl TypeError
      else
        case array_map
               (\<lambda>method.
                  case applyMethodIntegration functionInvocationUri scope path method options
                         (the (js_prop pathItem method)) getOperationName of
                    Inl e \<Rightarrow> Inl e
                  | Inr operation \<Rightarrow> Inr (method, operation))
               (filter (\<lambda>method. js_truthy (js_prop pathItem method)) HttpMethods) of
          Inl e \<Rightarrow> Inl e
        | Inr methods \<Rightarrow>
            (case generateCorsOptionsMethod pathItem options of
               Inl e \<Rightarrow> Inl e
             | Inr optionsMethod \<Rightarrow>
                 Inr (JObj
                   (spread (spread (spread [] (js_entries pathItem)) (fromEntries methods))
                      optionsMethod))))"

section \<open>Composing the document\<close>

text \<open>
  \<^verbatim>\<open>concatMethodAndPath\<close> of \<^verbatim>\<open>./utils\<close> and \<^verbatim>\<open>prepareSecuritySchemes\<close> of
  \<^verbatim>\<open>./api-gateway-auth\<close> are not under src: they are parameters.
\<close>

definition operationNameByPath ::
  "(MethodAndPath \<Rightarrow> string) \<Rightarrow> OpenApiOptions \<Rightarrow> (string \<times> string) list" where
  "operationNameByPath concatMethodAndPath options =
     fromEntries
       (map (\<lambda>(operationName, methodAndPath). (concatMethodAndPath methodAndPath, operationName))
          (operationLookup options))"

definition getOperationName ::
  "(MethodAndPath \<Rightarrow> string) \<Rightarrow> OpenApiOptions \<Rightarrow> MethodAndPath \<Rightarrow> string option" where
  "getOperationName concatMethodAndPath options methodAndPath =
     map_of (operationNameByPath concatMethodAndPath options) (concatMethodAndPath methodAndPath)"

definition gatewayResponses :: "OpenApiOptions \<Rightarrow> json" where
  \<open>gatewayResponses options =
     JObj
       [(''BAD_REQUEST_BODY'',
           JObj
             (spread
                [(''statusCode'', JNum 400),
                 (''responseTemplates'',
                    JObj
                      [(''application/json'',
                          JStr ''{"message": "$context.error.validationErrorString"}'')])]
                (case corsOptions options of
                   Some c \<Rightarrow>
                     [(''responseParameters'',
                         JObj (generateCorsResponseParameters c ''gatewayresponse.header''))]
                 | None \<Rightarrow> [])))]\<close>

definition prepareApiSpec ::
  "(construct \<Rightarrow> ifunction \<Rightarrow> string) \<Rightarrow> (MethodAndPath \<Rightarrow> string) \<Rightarrow>
   (construct \<Rightarrow> OpenApiOptions \<Rightarrow> json) \<Rightarrow> construct \<Rightarrow> jsobject \<Rightarrow> OpenApiOptions \<Rightarrow>
   error + json" where
  "prepareApiSpec functionInvocationUri concatMethodAndPath prepareSecuritySchemes scope spec options =
     (case object_entries (map_of spec ''paths'') of
        Inl e \<Rightarrow> Inl e
      | Inr pathEntries \<Rightarrow>
          (case array_map
                  (\<lambda>(path, pathDetails).
                     case preparePathSpec functionInvocationUri scope path pathDetails options
                            (getOperationName concatMethodAndPath options) of
                       Inl e \<Rightarrow> Inl e
                     | Inr pathItem \<Rightarrow> Inr (path, pathItem))
                  pathEntries of
             Inl e \<Rightarrow> Inl e
           | Inr paths \<Rightarrow>
               Inr (JObj
                 (AList.update ''components''
                    (JObj
                       (AList.update ''securitySchemes'' (prepareSecuritySchemes scope options)
                          (spread [] (spread_entries (map_of spec ''components'')))))
                    (AList.update ''paths'' (JObj (spread [] (fromEntries paths)))
                       (AList.update ''x-amazon-apigateway-gateway-responses''
                          (gatewayResponses options)
                          (AList.update ''x-amazon-apigateway-request-validator'' (JStr ''all'')
                             (AList.update ''x-amazon-apigateway-request-validators''
                                (JObj
                                   [(''all'',
                                       JObj
                                         [(''validateRequestBody'', JBool True),
                                          (''validateRequestParameters'', JBool True)])])
                                (spread [] spec)))))))))"

section \<open>Labelled functions\<close>

text \<open>A lambda function with a label to identify it; the source's field is \<^verbatim>\<open>function\<close>.\<close>

record LabelledFunction =
  label :: string
  lambdaFunction :: ifunction






section \<open>Observing a run\<close>

text \<open>The fragment \<^verbatim>\<open>generateCorsOptionsMethod\<close> returns for a path item that is an object.\<close>

definition optionsMethodOf :: "jsobject \<Rightarrow> OpenApiOptions \<Rightarrow> jsobject" where
  "optionsMethodOf item options =
     (case corsOptions options of
        None \<Rightarrow> []
      | Some c \<Rightarrow>
          if ''options'' \<in> fst ` set item then [] else [(''options'', corsOptionsOperation c)])"

text \<open>Reading a nested property along a list of keys; used to state what a document holds.\<close>

fun js_path :: "json \<Rightarrow> string list \<Rightarrow> json option" where
  "js_path v [] = Some v"
| "js_path v (k # ks) = (case js_prop v k of None \<Rightarrow> None | Some w \<Rightarrow> js_path w ks)"

text \<open>The result of a run, read along a list of keys; nothing when the run threw.\<close>

definition result_path :: "error + json \<Rightarrow> string list \<Rightarrow> json option" where
  "result_path r ks = (case r of Inl e \<Rightarrow> None | Inr v \<Rightarrow> js_path v ks)"

text \<open>What a caller observes of a run apart from the value returned: the error thrown, if any.\<close>

definition outcome :: "error + 'a \<Rightarrow> error option" where
  "outcome r = (case r of Inl e \<Rightarrow> Some e | Inr v \<Rightarrow> None)"

text \<open>Where a composed document holds the Access-Control-Allow-Origin value of the gateway response.\<close>

definition allowOriginParameter :: "string list" where
  "allowOriginParameter =
     [''x-amazon-apigateway-gateway-responses'', ''BAD_REQUEST_BODY'', ''responseParameters'',
      ''gatewayresponse.header.Access-Control-Allow-Origin'']"

section \<open>Example collaborators and inputs\<close>

text \<open>Concrete stand-ins for the parameters, and small documents and options, used to run the model.\<close>

definition example_uri :: "construct \<Rightarrow> ifunction \<Rightarrow> string" where
  "example_uri scope f = (case f of IFunction arn \<Rightarrow> ''lambda:'' @ arn)"

definition example_concat :: "MethodAndPath \<Rightarrow> string" where
  "example_concat mp = mp_method mp @ ''||'' @ mp_path mp"

definition example_schemes :: "construct \<Rightarrow> OpenApiOptions \<Rightarrow> json" where
  "example_schemes scope options = JObj []"

definition example_operation :: json where
  "example_operation =
     JObj
       [(''operationId'', JStr ''listPets''),
        (''responses'',
           JObj
             [(''200'',
                 JObj
                   [(''description'', JStr ''ok''),
                    (''headers'',
                       JObj
                         [(''Access-Control-Allow-Origin'', JObj [(''description'', JStr ''mine'')]),
                          (''X-Total'', JObj [])])])])]"

definition example_pathItem :: jsobject where
  "example_pathItem = [(''parameters'', JArr []), (''get'', example_operation)]"

definition example_spec :: jsobject where
  "example_spec = [(''openapi'', JStr ''3.0.3''), (''paths'', JObj [(''/pets'', JObj example_pathItem)])]"

definition example_get_only :: jsobject where
  "example_get_only =
     [(''paths'', JObj [(''/pets'', JObj [(''get'', JObj [(''responses'', JObj [])])])])]"

definition example_cors :: CorsOptions where
  "example_cors =
     \<lparr>allowOrigins = [''https://example.com''], allowHeaders = None, allowMethods = None,
      statusCode = None\<rparr>"

definition example_options :: OpenApiOptions where
  "example_options =
     \<lparr>integrations =
        [(''listPets'',
            \<lparr>integration_function = IFunction ''listPetsHandler'',
             integration_authorizer = Some (CustomAuthorizer (IFunction ''authHandler'') ''petAuth'')\<rparr>)],
      operationLookup = [(''listPets'', \<lparr>mp_path = ''/pets'', mp_method = ''get''\<rparr>)],
      defaultAuthorizer = Some IamAuthorizer,
      corsOptions = Some example_cors\<rparr>"

definition options_without_integration :: OpenApiOptions where
  "options_without_integration =
     \<lparr>integrations = [],
      operationLookup = [(''listPets'', \<lparr>mp_path = ''/pets'', mp_method = ''get''\<rparr>)],
      defaultAuthorizer = None,
      corsOptions = None\<rparr>"

definition options_constructor :: OpenApiOptions where
  "options_constructor =
     \<lparr>integrations = [],
      operationLookup = [(''constructor'', \<lparr>mp_path = ''/pets'', mp_method = ''get''\<rparr>)],
      defaultAuthorizer = None,
      corsOptions = None\<rparr>"

definition options_undefined_key :: OpenApiOptions where
  "options_undefined_key =
     \<lparr>integrations =
        [(''undefined'',
            \<lparr>integration_function = IFunction ''fallback'', integration_authorizer = None\<rparr>)],
      operationLookup = [],
      defaultAuthorizer = None,
      corsOptions = None\<rparr>"

definition options_collision :: OpenApiOptions where
  "options_collision =
     \<lparr>integrations =
        [(''listPets'',
            \<lparr>integration_function = IFunction ''listPetsHandler'', integration_authorizer = None\<rparr>)],
      operationLookup =
        [(''listPetsOld'', \<lparr>mp_path = ''/pets'', mp_method = ''get''\<rparr>),
         (''listPets'', \<lparr>mp_path = ''/pets'', mp_method = ''get''\<rparr>)],
      defaultAuthorizer = None,
      corsOptions = None\<rparr>"




definition cors_no_origins :: CorsOptions where
  "cors_no_origins =
     \<lparr>allowOrigins = [], allowHeaders = None, allowMethods = None, statusCode = None\<rparr>"

definition options_no_origins :: OpenApiOptions where
  "options_no_origins =
     \<lparr>integrations =
        [(''listPets'',
            \<lparr>integration_function = IFunction ''listPetsHandler'', integration_authorizer = None\<rparr>)],
      operationLookup = [(''listPets'', \<lparr>mp_path = ''/pets'', mp_method = ''get''\<rparr>)],
      defaultAuthorizer = None,
      corsOptions = Some cors_no_origins\<rparr>"

section \<open>Properties of the object operations\<close>

lemma map_of_spread: "map_of (spread obj src) = map_of obj ++ map_of (rev src)"
  unfolding spread_def
  by (induction src arbitrary: obj) (auto simp: update_conv' map_add_def fun_eq_iff split: option.splits)

lemma map_of_rev_distinct: "distinct (map fst xs) \<Longrightarrow> map_of (rev xs) = map_of xs"
  by (subst map_of_inject_set) (simp_all add: rev_map [symmetric])

lemma map_of_spread_distinct:
  "distinct (map fst src) \<Longrightarrow> map_of (spread obj src) = map_of obj ++ map_of src"
  by (simp add: map_of_spread map_of_rev_distinct)

lemma map_of_spread_other:
  "k \<notin> fst ` set src \<Longrightarrow> map_of (spread obj src) k = map_of obj k"
  by (simp add: map_of_spread map_add_def map_of_eq_None_iff [THEN iffD2])

lemma spread_append:
  "distinct (map fst src) \<Longrightarrow> fst ` set obj \<inter> fst ` set src = {} \<Longrightarrow> spread obj src = obj @ src"
  unfolding spread_def
proof (induction src arbitrary: obj)
  case Nil
  then show ?case by simp
next
  case (Cons a src)
  obtain k v where a: "a = (k, v)" by (cases a)
  have "k \<notin> fst ` set obj" using Cons.prems a by auto
  then have u: "AList.update k v obj = obj @ [(k, v)]"
    by (induction obj) auto
  have "fold (\<lambda>(k, v). AList.update k v) src (obj @ [(k, v)]) = (obj @ [(k, v)]) @ src"
    using Cons.prems a by (intro Cons.IH) auto
  then show ?case using a u by simp
qed

lemma spread_Nil_distinct: "distinct (map fst xs) \<Longrightarrow> spread [] xs = xs"
  by (simp add: spread_append)

lemma fromEntries_distinct: "distinct (map fst es) \<Longrightarrow> fromEntries es = es"
  by (simp add: fromEntries_def spread_append)

lemma array_map_Inr:
  "array_map f xs = Inr ys \<Longrightarrow> list_all2 (\<lambda>x y. f x = Inr y) xs ys"
  by (induction xs arbitrary: ys) (auto split: sum.splits)

lemma array_map_keys:
  "array_map f xs = Inr ys \<Longrightarrow> (\<And>x y. f x = Inr y \<Longrightarrow> fst y = g x) \<Longrightarrow> map fst ys = map g xs"
  by (induction xs arbitrary: ys) (auto split: sum.splits)

lemma array_map_member:
  "array_map f xs = Inr ys \<Longrightarrow> x \<in> set xs \<Longrightarrow> \<exists>y \<in> set ys. f x = Inr y"
  by (induction xs arbitrary: ys) (auto split: sum.splits)

section \<open>The composed operation\<close>

lemma applyMethodAuthorizer_keys: "map fst (applyMethodAuthorizer a) = [''security'']"
  by (cases a) simp_all

lemma applyMethodIntegration_Inr:
  assumes "applyMethodIntegration uri scope path method options operation name = Inr composed"
  shows "\<exists>integration entries responses.
    map_of (integrations options) (js_string (name \<lparr>mp_path = path, mp_method = method\<rparr>)) =
       Some integration
    \<and> object_entries (js_prop operation ''responses'') = Inr entries
    \<and> array_map (composeResponse (corsOptions options \<noteq> None)) entries = Inr responses
    \<and> composed =
        composeOperation operation responses (uri scope (integration_function integration))
          (methodAuthorizer (integration_authorizer integration) options)"
  using assms
  by (auto simp: applyMethodIntegration_def destructureIntegration_def invocationUri_def Let_def
      split: option.splits sum.splits if_splits)

text \<open>
  What the integration check does with a name that is no own key of the mapping: the
  error that names the operation, unless the name is inherited, and then a TypeError.
\<close>

lemma applyMethodIntegration_no_entry:
  assumes "map_of (integrations options) (js_string (name \<lparr>mp_path = path, mp_method = method\<rparr>)) = None"
  shows "applyMethodIntegration uri scope path method options operation name =
    (if js_string (name \<lparr>mp_path = path, mp_method = method\<rparr>) \<in> set Object_prototype_names
     then Inl TypeError
     else Inl (Error (''Missing required integration for operation '' @
            js_string (name \<lparr>mp_path = path, mp_method = method\<rparr>) @
            '' ('' @ method @ '' '' @ path @ '')'')))"
  using assms
  by (simp add: applyMethodIntegration_def destructureIntegration_def invocationUri_def Let_def)

lemma composeOperation_security:
  "js_prop (composeOperation operation responses uri a) ''security'' =
     map_of (applyMethodAuthorizer a) ''security''"
  by (cases a) (simp_all add: composeOperation_def spread_def update_conv')

lemma composeOperation_responses:
  "js_prop (composeOperation operation responses uri a) ''responses'' =
     Some (JObj (fromEntries responses))"
  by (simp add: composeOperation_def map_of_spread_other applyMethodAuthorizer_keys update_conv'
      flip: set_map)

lemma composeOperation_integration:
  "js_prop (composeOperation operation responses uri a) ''x-amazon-apigateway-integration'' =
     Some (JObj
        [(''type'', JStr ''AWS_PROXY''),
         (''httpMethod'', JStr ''POST''),
         (''uri'', JStr uri),
         (''passthroughBehavior'', JStr ''WHEN_NO_MATCH'')])"
  by (simp add: composeOperation_def map_of_spread_other applyMethodAuthorizer_keys update_conv'
      flip: set_map)

lemma composeOperation_other:
  assumes "distinct (map fst operation)"
    and "k \<noteq> ''responses''" and "k \<noteq> ''x-amazon-apigateway-integration''" and "k \<noteq> ''security''"
  shows "js_prop (composeOperation (JObj operation) responses uri a) k = map_of operation k"
  using assms
  by (simp add: composeOperation_def map_of_spread_other applyMethodAuthorizer_keys update_conv'
      spread_Nil_distinct flip: set_map)

lemma composeResponse_key: "composeResponse cors entry = Inr y \<Longrightarrow> fst y = fst entry"
  by (auto simp: composeResponse_def split: prod.splits if_splits)

lemma distinct_getCorsHeaderDefinitions: "distinct (map fst getCorsHeaderDefinitions)"
  by (simp add: getCorsHeaderDefinitions_def)

lemma composeResponse_headers:
  assumes "composeResponse cors (code, response) = Inr (code', response')"
    and "distinct (map fst (spread_entries (js_prop response ''headers'')))"
  shows "\<exists>headers'. js_prop response' ''headers'' = Some (JObj headers')
    \<and> (\<forall>name. map_of headers' name =
          (case map_of (spread_entries (js_prop response ''headers'')) name of
             Some d \<Rightarrow> Some d
           | None \<Rightarrow> if cors then map_of getCorsHeaderDefinitions name else None))"
proof -
  let ?own = "spread_entries (js_prop response ''headers'')"
  let ?base = "if cors then getCorsHeaderDefinitions else []"
  let ?headers = "spread (spread [] ?base) ?own"
  have r: "response' = JObj (AList.update ''headers'' (JObj ?headers) (spread [] (js_entries response)))"
    using assms(1) by (auto simp: composeResponse_def split: if_splits)
  have base: "spread [] ?base = ?base"
    by (simp add: spread_Nil_distinct distinct_getCorsHeaderDefinitions)
  have "map_of ?headers name =
          (case map_of ?own name of
             Some d \<Rightarrow> Some d
           | None \<Rightarrow> if cors then map_of getCorsHeaderDefinitions name else None)" for name
    using assms(2)
    by (cases cors)
      (simp_all add: spread_Nil_distinct distinct_getCorsHeaderDefinitions map_of_spread_distinct
        map_add_def split: option.splits)
  moreover have "js_prop response' ''headers'' = Some (JObj ?headers)"
    unfolding r by (simp add: update_conv')
  ultimately show ?thesis by blast
qed

section \<open>The composed path item\<close>

lemma distinct_HttpMethods: "distinct HttpMethods"
  by (simp add: HttpMethods_def)

lemma options_in_HttpMethods: "''options'' \<in> set HttpMethods"
  by (simp add: HttpMethods_def)

lemma generateCorsOptionsMethod_JObj:
  "generateCorsOptionsMethod (JObj item) options = Inr (optionsMethodOf item options)"
  by (simp add: generateCorsOptionsMethod_def optionsMethodOf_def HttpMethods_OPTIONS_def
      split: option.splits)

lemma preparePathSpec_Inr:
  assumes "preparePathSpec uri scope path (JObj item) options name = Inr composedItem"
  shows "\<exists>methods.
      array_map
        (\<lambda>method.
           case applyMethodIntegration uri scope path method options (the (map_of item method)) name of
             Inl e \<Rightarrow> Inl e
           | Inr operation \<Rightarrow> Inr (method, operation))
        (filter (\<lambda>method. js_truthy (map_of item method)) HttpMethods) = Inr methods
    \<and> composedItem =
        JObj (spread (spread (spread [] item) (fromEntries methods)) (optionsMethodOf item options))"
  using assms
  by (auto simp: preparePathSpec_def generateCorsOptionsMethod_JObj split: sum.splits)

lemma composed_methods:
  assumes "array_map
        (\<lambda>method.
           case applyMethodIntegration uri scope path method options (the (map_of item method)) name of
             Inl e \<Rightarrow> Inl e
           | Inr operation \<Rightarrow> Inr (method, operation))
        (filter (\<lambda>method. js_truthy (map_of item method)) HttpMethods) = Inr methods"
  shows "map fst methods = filter (\<lambda>method. js_truthy (map_of item method)) HttpMethods"
    and "fromEntries methods = methods"
    and "(k, op) \<in> set methods \<Longrightarrow>
           applyMethodIntegration uri scope path k options (the (map_of item k)) name = Inr op"
proof -
  let ?f = "\<lambda>method.
           case applyMethodIntegration uri scope path method options (the (map_of item method)) name of
             Inl e \<Rightarrow> Inl e
           | Inr operation \<Rightarrow> Inr (method, operation)"
  let ?ms = "filter (\<lambda>method. js_truthy (map_of item method)) HttpMethods"
  have key: "fst y = x" if "?f x = Inr y" for x y
    using that by (auto split: sum.splits)
  show keys: "map fst methods = ?ms"
    using array_map_keys [OF assms, of "\<lambda>x. x"] key by simp
  have "distinct (map fst methods)"
    unfolding keys using distinct_HttpMethods by simp
  then show "fromEntries methods = methods" by (rule fromEntries_distinct)
  show "applyMethodIntegration uri scope path k options (the (map_of item k)) name = Inr op"
    if "(k, op) \<in> set methods"
  proof -
    from array_map_Inr [OF assms] that
    obtain x where "?f x = Inr (k, op)"
      by (auto simp: list_all2_conv_all_nth in_set_conv_nth)
    then show ?thesis by (auto split: sum.splits)
  qed
qed

lemma preparePathSpec_lookup:
  assumes "preparePathSpec uri scope path (JObj item) options name = Inr composedItem"
    and "distinct (map fst item)"
  shows "\<exists>methods.
      map fst methods = filter (\<lambda>method. js_truthy (map_of item method)) HttpMethods
    \<and> (\<forall>k op. (k, op) \<in> set methods \<longrightarrow>
          applyMethodIntegration uri scope path k options (the (map_of item k)) name = Inr op)
    \<and> (\<forall>k. js_prop composedItem k =
          (case map_of (optionsMethodOf item options) k of
             Some v \<Rightarrow> Some v
           | None \<Rightarrow> (case map_of methods k of Some v \<Rightarrow> Some v | None \<Rightarrow> map_of item k)))"
proof -
  from preparePathSpec_Inr [OF assms(1)] obtain methods where
    m: "array_map
        (\<lambda>method.
           case applyMethodIntegration uri scope path method options (the (map_of item method)) name of
             Inl e \<Rightarrow> Inl e
           | Inr operation \<Rightarrow> Inr (method, operation))
        (filter (\<lambda>method. js_truthy (map_of item method)) HttpMethods) = Inr methods"
    and c: "composedItem =
        JObj (spread (spread (spread [] item) (fromEntries methods)) (optionsMethodOf item options))"
    by blast
  note facts = composed_methods [OF m]
  have dm: "distinct (map fst methods)"
    unfolding facts(1) using distinct_HttpMethods by simp
  have dopt: "distinct (map fst (optionsMethodOf item options))"
    by (simp add: optionsMethodOf_def split: option.splits)
  have "js_prop composedItem k =
          (case map_of (optionsMethodOf item options) k of
             Some v \<Rightarrow> Some v
           | None \<Rightarrow> (case map_of methods k of Some v \<Rightarrow> Some v | None \<Rightarrow> map_of item k))" for k
    unfolding c
    using dm dopt assms(2)
    by (simp add: facts(2) map_of_spread_distinct spread_Nil_distinct map_add_def
        split: option.splits)
  with facts(1,3) show ?thesis by blast
qed

lemma preparePathSpec_method:
  assumes "preparePathSpec uri scope path (JObj item) options name = Inr composedItem"
    and "distinct (map fst item)"
    and "map_of (optionsMethodOf item options) k = None"
  shows "js_prop composedItem k =
    (if k \<in> set HttpMethods \<and> js_truthy (map_of item k)
     then (case applyMethodIntegration uri scope path k options (the (map_of item k)) name of
             Inr op \<Rightarrow> Some op
           | Inl e \<Rightarrow> None)
     else map_of item k)"
proof -
  from preparePathSpec_lookup [OF assms(1,2)] obtain methods where
    keys: "map fst methods = filter (\<lambda>method. js_truthy (map_of item method)) HttpMethods"
    and run: "\<And>k op. (k, op) \<in> set methods \<Longrightarrow>
          applyMethodIntegration uri scope path k options (the (map_of item k)) name = Inr op"
    and look: "\<And>k. js_prop composedItem k =
          (case map_of (optionsMethodOf item options) k of
             Some v \<Rightarrow> Some v
           | None \<Rightarrow> (case map_of methods k of Some v \<Rightarrow> Some v | None \<Rightarrow> map_of item k))"
    by blast
  show ?thesis
  proof (cases "k \<in> set HttpMethods \<and> js_truthy (map_of item k)")
    case True
    then have "k \<in> set (map fst methods)" unfolding keys by simp
    then obtain op where op: "(k, op) \<in> set methods" by auto
    have "distinct (map fst methods)" unfolding keys using distinct_HttpMethods by simp
    then have "map_of methods k = Some op" using op by (rule map_of_is_SomeI)
    then show ?thesis using True run [OF op] assms(3) by (simp add: look)
  next
    case False
    then have "k \<notin> set (map fst methods)" unfolding keys by simp
    then have "map_of methods k = None" by (simp add: map_of_eq_None_iff)
    then show ?thesis using False assms(3) by (auto simp: look)
  qed
qed

lemma preparePathSpec_generated:
  assumes "preparePathSpec uri scope path (JObj item) options name = Inr composedItem"
    and "distinct (map fst item)"
    and "corsOptions options = Some c"
    and "''options'' \<notin> fst ` set item"
  shows "js_prop composedItem ''options'' = Some (corsOptionsOperation c)"
proof -
  from preparePathSpec_lookup [OF assms(1,2)] obtain methods where
    "\<And>k. js_prop composedItem k =
          (case map_of (optionsMethodOf item options) k of
             Some v \<Rightarrow> Some v
           | None \<Rightarrow> (case map_of methods k of Some v \<Rightarrow> Some v | None \<Rightarrow> map_of item k))"
    by blast
  then show ?thesis using assms(3,4) by (simp add: optionsMethodOf_def)
qed

lemma optionsMethodOf_other: "k \<noteq> ''options'' \<Longrightarrow> map_of (optionsMethodOf item options) k = None"
  by (simp add: optionsMethodOf_def split: option.splits)

section \<open>The preflight operation\<close>

lemma generateCorsResponseParameters_entries:
  "generateCorsResponseParameters c prefix =
     map (\<lambda>(header, v). (prefix @ ''.'' @ header, JStr v)) (generateCorsResponseHeaders c)"
  by (simp add: generateCorsResponseParameters_def generateCorsResponseHeaders_def fromEntries_def
      spread_def)

lemma corsOptionsOperation_keys:
  "map fst (js_entries (corsOptionsOperation c)) =
     [''summary'', ''description'', ''responses'', ''x-amazon-apigateway-integration'']"
  by (simp add: corsOptionsOperation_def)

lemma corsOptionsOperation_responses:
  "js_prop (corsOptionsOperation c) ''responses'' =
     Some (JObj
       [(number_toString
           (case statusCode c of
              None \<Rightarrow> Number ''204''
            | Some s \<Rightarrow> if number_truthy s then s else Number ''204''),
           JObj
             [(''description'', JStr ''Default response for CORS method''),
              (''headers'', JObj getCorsHeaderDefinitions),
              (''content'', JObj [])])])"
  by (simp add: corsOptionsOperation_def cors_status_def)

lemma corsOptionsOperation_integration:
  "js_path (corsOptionsOperation c) [''x-amazon-apigateway-integration'', ''type''] =
     Some (JStr ''mock'')"
  "js_path (corsOptionsOperation c)
     [''x-amazon-apigateway-integration'', ''responses'', ''default'', ''responseParameters''] =
     Some (JObj
       (map (\<lambda>(header, v). (''method.response.header.'' @ header, JStr v))
          (generateCorsResponseHeaders c)))"
  "js_path (corsOptionsOperation c)
     [''x-amazon-apigateway-integration'', ''responses'', ''default'', ''responseTemplates'',
      ''application/json''] =
     Some (JStr ''{}'')"
  by (simp_all add: corsOptionsOperation_def generateCorsResponseParameters_entries)

section \<open>Counting labelled functions\<close>


section \<open>What a run throws\<close>

lemma outcome_simps: "outcome (Inl e) = Some e" "outcome (Inr v) = None"
  by (simp_all add: outcome_def)

lemma array_map_outcome_cong:
  "(\<And>x. x \<in> set xs \<Longrightarrow> outcome (f x) = outcome (g x)) \<Longrightarrow>
   outcome (array_map f xs) = outcome (array_map g xs)"
proof (induction xs)
  case Nil
  show ?case by (simp add: outcome_def)
next
  case (Cons x xs)
  have "outcome (f x) = outcome (g x)" using Cons.prems by simp
  moreover have "outcome (array_map f xs) = outcome (array_map g xs)"
    using Cons by simp
  ultimately show ?case
    by (auto simp: outcome_def split: sum.splits)
qed

lemma outcome_then: "outcome (case r of Inl e \<Rightarrow> Inl e | Inr v \<Rightarrow> Inr (h v)) = outcome r"
  by (simp add: outcome_def split: sum.splits)

lemma outcome_bind:
  "outcome (case r of Inl e \<Rightarrow> Inl e | Inr v \<Rightarrow> k v) =
     (case outcome r of Some e \<Rightarrow> Some e | None \<Rightarrow> outcome (k (projr r)))"
  by (simp add: outcome_def split: sum.splits)

lemma composeResponse_outcome:
  "outcome (composeResponse b entry) = outcome (composeResponse b' entry)"
  by (simp add: composeResponse_def outcome_def split: prod.splits)

lemma applyMethodIntegration_outcome:
  assumes "integrations options' = integrations options"
  shows "outcome (applyMethodIntegration uri scope path method options' operation name) =
         outcome (applyMethodIntegration uri scope path method options operation name)"
proof (cases "destructureIntegration (integrations options)
                (js_string (name \<lparr>mp_path = path, mp_method = method\<rparr>))")
  case None
  then show ?thesis by (simp add: applyMethodIntegration_def Let_def assms)
next
  case (Some found)
  obtain authorizer lambdaFunction where found: "found = (authorizer, lambdaFunction)"
    by (cases found)
  show ?thesis
  proof (cases "invocationUri uri scope lambdaFunction")
    case (Inl e)
    then show ?thesis using Some found by (simp add: applyMethodIntegration_def Let_def assms)
  next
    case uri: (Inr target)
    show ?thesis
    proof (cases "object_entries (js_prop operation ''responses'')")
      case (Inl e)
      then show ?thesis
        using Some found uri by (simp add: applyMethodIntegration_def Let_def assms)
    next
      case (Inr entries)
      have "outcome (array_map (composeResponse (corsOptions options' \<noteq> None)) entries) =
            outcome (array_map (composeResponse (corsOptions options \<noteq> None)) entries)"
        by (rule array_map_outcome_cong) (rule composeResponse_outcome)
      then show ?thesis
        using Some found uri Inr
        by (simp add: applyMethodIntegration_def Let_def assms outcome_then)
    qed
  qed
qed

lemma generateCorsOptionsMethod_outcome:
  "outcome (generateCorsOptionsMethod pathItem options') =
   outcome (generateCorsOptionsMethod pathItem options)"
  by (simp add: generateCorsOptionsMethod_def outcome_def split: sum.splits option.splits)

lemma preparePathSpec_outcome:
  assumes "integrations options' = integrations options"
  shows "outcome (preparePathSpec uri scope path pathItem options' name) =
         outcome (preparePathSpec uri scope path pathItem options name)"
proof -
  let ?f = "\<lambda>options method.
              case applyMethodIntegration uri scope path method options
                     (the (js_prop pathItem method)) name of
                Inl e \<Rightarrow> Inl e
              | Inr operation \<Rightarrow> Inr (method, operation)"
  let ?ms = "filter (\<lambda>method. js_truthy (js_prop pathItem method)) HttpMethods"
  have "outcome (?f options' m) = outcome (?f options m)" for m
    using applyMethodIntegration_outcome [OF assms, of uri scope path m "the (js_prop pathItem m)" name]
    by (simp add: outcome_then)
  then have "outcome (array_map (?f options') ?ms) = outcome (array_map (?f options) ?ms)"
    by (intro array_map_outcome_cong)
  then show ?thesis
    using generateCorsOptionsMethod_outcome [of pathItem options' options]
    unfolding preparePathSpec_def
    by (simp add: outcome_bind outcome_simps cong: option.case_cong)
qed

lemma prepareApiSpec_outcome:
  assumes "integrations options' = integrations options"
    and "getOperationName concatMethodAndPath options' = getOperationName concatMethodAndPath options"
  shows "outcome (prepareApiSpec uri concatMethodAndPath schemes scope spec options') =
         outcome (prepareApiSpec uri concatMethodAndPath schemes scope spec options)"
proof -
  let ?f = "\<lambda>options (path, pathDetails).
              case preparePathSpec uri scope path pathDetails options
                     (getOperationName concatMethodAndPath options) of
                Inl e \<Rightarrow> Inl e
              | Inr pathItem \<Rightarrow> Inr (path, pathItem)"
  have "outcome (?f options' x) = outcome (?f options x)" for x
    using preparePathSpec_outcome [OF assms(1)]
    by (cases x) (simp add: outcome_then assms(2))
  then have "outcome (array_map (?f options') entries) = outcome (array_map (?f options) entries)"
    for entries
    by (intro array_map_outcome_cong)
  then show ?thesis
    unfolding prepareApiSpec_def
    by (simp add: outcome_bind outcome_simps cong: option.case_cong)
qed

section \<open>The reverse index and the gateway response\<close>

lemma getOperationName_corsOptions:
  "getOperationName concatMethodAndPath (options\<lparr>corsOptions := x\<rparr>) =
   getOperationName concatMethodAndPath options"
  by (simp add: getOperationName_def operationNameByPath_def fun_eq_iff)

lemma getOperationName_last_wins:
  assumes "operationLookup options = before @ (winner, methodAndPath) # after"
    and "\<forall>(name, mp) \<in> set after. concatMethodAndPath mp \<noteq> concatMethodAndPath methodAndPath"
  shows "getOperationName concatMethodAndPath options methodAndPath = Some winner"
proof -
  let ?g = "\<lambda>(operationName, methodAndPath). (concatMethodAndPath methodAndPath, operationName)"
  have "concatMethodAndPath methodAndPath \<notin> fst ` set (rev (map ?g after))"
    using assms(2) by (auto simp: case_prod_unfold)
  then have "map_of (rev (map ?g after)) (concatMethodAndPath methodAndPath) = None"
    by (rule map_of_eq_None_iff [THEN iffD2])
  then show ?thesis
    by (simp add: getOperationName_def operationNameByPath_def fromEntries_def map_of_spread
        assms(1) map_add_def)
qed

lemma getOperationName_shadowed:
  assumes "concatMethodAndPath earlier_mp = concatMethodAndPath later_mp"
  shows "getOperationName concatMethodAndPath
           (options\<lparr>operationLookup := before @ (earlier, earlier_mp) # between @ (later, later_mp) # after\<rparr>) =
         getOperationName concatMethodAndPath
           (options\<lparr>operationLookup := before @ between @ (later, later_mp) # after\<rparr>)"
  using assms
  by (auto simp: getOperationName_def operationNameByPath_def fromEntries_def map_of_spread
      map_add_def fun_eq_iff split: option.splits)

lemma prepareApiSpec_gatewayResponses:
  assumes "prepareApiSpec uri concatMethodAndPath schemes scope spec options = Inr doc"
  shows "js_prop doc ''x-amazon-apigateway-gateway-responses'' = Some (gatewayResponses options)"
  using assms
  by (auto simp: prepareApiSpec_def update_conv' split: sum.splits)

lemma gatewayResponses_allowOrigin:
  assumes "corsOptions options = Some c"
  shows "js_path (gatewayResponses options)
           [''BAD_REQUEST_BODY'', ''responseParameters'',
            ''gatewayresponse.header.Access-Control-Allow-Origin''] =
         Some (JStr (quoted_list (allowOrigins c)))"
  using assms
  by (simp add: gatewayResponses_def spread_def generateCorsResponseParameters_entries
      generateCorsResponseHeaders_def)

section \<open>Example runs\<close>

lemmas run_defs =
  prepareApiSpec_def preparePathSpec_def applyMethodIntegration_def composeOperation_def
  composeResponse_def generateCorsOptionsMethod_def gatewayResponses_def getOperationName_def
  operationNameByPath_def generateCorsResponseParameters_def generateCorsResponseHeaders_def
  getCorsHeaderDefinitions_def corsOptionsOperation_def cors_status_def quoted_list_def
  methodAuthorizer_def Authorizers_none_def fromEntries_def spread_def spread_entries_def
  destructureIntegration_def invocationUri_def Object_prototype_names_def
  js_string_def HttpMethods_def HttpMethods_OPTIONS_def Cors_DEFAULT_HEADERS_def
  Cors_ALL_METHODS_def Let_def

lemmas example_defs =
  example_spec_def example_pathItem_def example_operation_def example_uri_def example_concat_def
  example_schemes_def

lemma example_name:
  "getOperationName example_concat example_options \<lparr>mp_path = ''/pets'', mp_method = ''get''\<rparr> =
     Some ''listPets''"
  by (simp add: getOperationName_def operationNameByPath_def example_options_def fromEntries_def
      spread_def example_concat_def)

lemma example_run:
  "\<exists>composed. applyMethodIntegration example_uri (Construct ''api'') ''/pets'' ''get'' example_options
      example_operation (getOperationName example_concat example_options) = Inr composed"
  by (simp add: applyMethodIntegration_def destructureIntegration_def invocationUri_def Let_def
      example_name [unfolded example_options_def] js_string_def example_options_def
      example_operation_def composeResponse_def)

lemma example_path_run:
  "\<exists>composedItem. preparePathSpec example_uri (Construct ''api'') ''/pets'' (JObj example_pathItem)
      example_options (getOperationName example_concat example_options) = Inr composedItem"
proof -
  obtain composed where run:
    "applyMethodIntegration example_uri (Construct ''api'') ''/pets'' ''get'' example_options
       example_operation (getOperationName example_concat example_options) = Inr composed"
    using example_run by blast
  show ?thesis
    by (simp add: preparePathSpec_def example_pathItem_def HttpMethods_def run
        generateCorsOptionsMethod_JObj)
qed

section \<open>Claims\<close>

text \<open>
  C1 fails on the code for an operation identifier that is the name of an inherited
  property, such as \<^verbatim>\<open>constructor\<close>: with no entry of that name in the integrations
  mapping, the \<^verbatim>\<open>in\<close> test still succeeds, the function read from the inherited value is
  undefined, and the transform aborts with a TypeError that names neither the operation
  nor the method and path. For an identifier that is not inherited, the same document
  aborts with the error that names them.
\<close>

theorem inherited_name_passes_integration_check:
  "getOperationName example_concat options_constructor
     \<lparr>mp_path = ''/pets'', mp_method = ''get''\<rparr> = Some ''constructor''
   \<and> map_of (integrations options_constructor) ''constructor'' = None
   \<and> prepareApiSpec example_uri example_concat example_schemes (Construct ''api'')
       example_get_only options_constructor = Inl TypeError
   \<and> prepareApiSpec example_uri example_concat example_schemes (Construct ''api'')
       example_get_only options_without_integration =
     Inl (Error ''Missing required integration for operation listPets (get /pets)'')"
  by (simp add: options_constructor_def options_without_integration_def example_get_only_def
      example_concat_def run_defs)

text \<open>
  C2. When CORS is enabled, every response entry of a composed operation keeps each
  header its author defined, with the original definition, and gains exactly the CORS
  header definitions whose names the response did not define.
\<close>

theorem cors_headers_additive:
  assumes "applyMethodIntegration uri scope path method options operation name = Inr composed"
    and "corsOptions options \<noteq> None"
    and "js_prop operation ''responses'' = Some (JObj responses)"
    and "distinct (map fst responses)"
    and "map_of responses code = Some response"
    and "distinct (map fst (spread_entries (js_prop response ''headers'')))"
  shows "\<exists>responses' response' headers'.
      js_prop composed ''responses'' = Some (JObj responses')
    \<and> map_of responses' code = Some response'
    \<and> js_prop response' ''headers'' = Some (JObj headers')
    \<and> (\<forall>name. map_of headers' name =
          (case map_of (spread_entries (js_prop response ''headers'')) name of
             Some d \<Rightarrow> Some d
           | None \<Rightarrow> map_of getCorsHeaderDefinitions name))"
proof -
  from applyMethodIntegration_Inr [OF assms(1)]
  obtain integration :: OpenApiIntegration and entries rs where
    e: "object_entries (js_prop operation ''responses'') = Inr entries"
    and m: "array_map (composeResponse (corsOptions options \<noteq> None)) entries = Inr rs"
    and c: "composed =
        composeOperation operation rs (uri scope (integration_function integration))
          (methodAuthorizer (integration_authorizer integration) options)"
    by blast
  have entries: "entries = responses" using e assms(3) by simp
  have m': "array_map (composeResponse True) responses = Inr rs"
    using m entries assms(2) by simp
  have keys: "map fst rs = map fst responses"
    using array_map_keys [OF m', of fst] composeResponse_key by blast
  then have rs: "fromEntries rs = rs" using assms(4) by (simp add: fromEntries_distinct)
  have "(code, response) \<in> set responses" using assms(5) by (rule map_of_SomeD)
  then obtain y where y: "y \<in> set rs" "composeResponse True (code, response) = Inr y"
    using array_map_member [OF m'] by blast
  obtain response' where y': "y = (code, response')"
    using composeResponse_key [OF y(2)] by (cases y) simp
  have "distinct (map fst rs)" using keys assms(4) by simp
  then have look: "map_of rs code = Some response'"
    using y(1) y' by (intro map_of_is_SomeI) simp_all
  from composeResponse_headers [OF y(2) [unfolded y'] assms(6)]
  obtain headers' where
    "js_prop response' ''headers'' = Some (JObj headers')"
    "\<forall>name. map_of headers' name =
          (case map_of (spread_entries (js_prop response ''headers'')) name of
             Some d \<Rightarrow> Some d
           | None \<Rightarrow> map_of getCorsHeaderDefinitions name)"
    by auto
  moreover have "js_prop composed ''responses'' = Some (JObj rs)"
    unfolding c by (simp add: composeOperation_responses rs)
  ultimately show ?thesis using look by blast
qed

theorem cors_headers_additive_witness:
  "\<exists>composed responses' response' headers'.
      applyMethodIntegration example_uri (Construct ''api'') ''/pets'' ''get'' example_options
        example_operation (getOperationName example_concat example_options) = Inr composed
    \<and> js_prop composed ''responses'' = Some (JObj responses')
    \<and> map_of responses' ''200'' = Some response'
    \<and> js_prop response' ''headers'' = Some (JObj headers')
    \<and> map_of headers' ''Access-Control-Allow-Origin'' = Some (JObj [(''description'', JStr ''mine'')])
    \<and> map_of headers' ''Access-Control-Allow-Methods'' =
          Some (JObj [(''schema'', JObj [(''type'', JStr ''string'')])])
    \<and> map_of headers' ''X-Total'' = Some (JObj [])"
proof -
  obtain composed where run:
    "applyMethodIntegration example_uri (Construct ''api'') ''/pets'' ''get'' example_options
       example_operation (getOperationName example_concat example_options) = Inr composed"
    using example_run by blast
  let ?response =
    "JObj
       [(''description'', JStr ''ok''),
        (''headers'',
           JObj
             [(''Access-Control-Allow-Origin'', JObj [(''description'', JStr ''mine'')]),
              (''X-Total'', JObj [])])]"
  have "\<exists>responses' response' headers'.
      js_prop composed ''responses'' = Some (JObj responses')
    \<and> map_of responses' ''200'' = Some response'
    \<and> js_prop response' ''headers'' = Some (JObj headers')
    \<and> (\<forall>name. map_of headers' name =
          (case map_of (spread_entries (js_prop ?response ''headers'')) name of
             Some d \<Rightarrow> Some d
           | None \<Rightarrow> map_of getCorsHeaderDefinitions name))"
    by (rule cors_headers_additive [OF run, of "[(''200'', ?response)]"])
      (simp_all add: example_options_def example_operation_def spread_entries_def)
  then obtain responses' response' headers' where
    "js_prop composed ''responses'' = Some (JObj responses')"
    "map_of responses' ''200'' = Some response'"
    "js_prop response' ''headers'' = Some (JObj headers')"
    and h: "\<And>name. map_of headers' name =
          (case map_of (spread_entries (js_prop ?response ''headers'')) name of
             Some d \<Rightarrow> Some d
           | None \<Rightarrow> map_of getCorsHeaderDefinitions name)"
    by blast
  moreover have "map_of headers' ''Access-Control-Allow-Origin'' =
      Some (JObj [(''description'', JStr ''mine'')])"
    by (simp add: h spread_entries_def)
  moreover have "map_of headers' ''Access-Control-Allow-Methods'' =
      Some (JObj [(''schema'', JObj [(''type'', JStr ''string'')])])"
    by (simp add: h spread_entries_def getCorsHeaderDefinitions_def)
  moreover have "map_of headers' ''X-Total'' = Some (JObj [])"
    by (simp add: h spread_entries_def)
  ultimately show ?thesis using run by blast
qed


text \<open>
  C4. The security requirement of a composed operation is the fragment of the integration's
  own authorizer when it has one, otherwise of the default authorizer of the options when
  there is one, otherwise of the built-in no-authorization variant.
\<close>

theorem effective_authorizer_order:
  assumes "applyMethodIntegration uri scope path method options operation name = Inr composed"
    and "map_of (integrations options) (js_string (name \<lparr>mp_path = path, mp_method = method\<rparr>)) =
           Some integration"
  shows "(\<forall>a. integration_authorizer integration = Some a \<longrightarrow>
            js_prop composed ''security'' = map_of (applyMethodAuthorizer a) ''security'')
       \<and> (\<forall>d. integration_authorizer integration = None \<and> defaultAuthorizer options = Some d \<longrightarrow>
            js_prop composed ''security'' = map_of (applyMethodAuthorizer d) ''security'')
       \<and> (integration_authorizer integration = None \<and> defaultAuthorizer options = None \<longrightarrow>
            js_prop composed ''security'' = map_of (applyMethodAuthorizer NoneAuthorizer) ''security'')"
proof -
  from applyMethodIntegration_Inr [OF assms(1)] assms(2)
  obtain responses where
    "composed =
       composeOperation operation responses (uri scope (integration_function integration))
         (methodAuthorizer (integration_authorizer integration) options)"
    by auto
  then have "js_prop composed ''security'' =
      map_of (applyMethodAuthorizer (methodAuthorizer (integration_authorizer integration) options)) ''security''"
    by (simp add: composeOperation_security)
  then show ?thesis
    by (simp add: methodAuthorizer_def Authorizers_none_def)
qed

theorem effective_authorizer_order_witness:
  "\<exists>composed.
      applyMethodIntegration example_uri (Construct ''api'') ''/pets'' ''get'' example_options
        example_operation (getOperationName example_concat example_options) = Inr composed
    \<and> js_prop composed ''security'' = Some (JArr [JObj [(''petAuth'', JArr [])]])"
proof -
  obtain composed where run:
    "applyMethodIntegration example_uri (Construct ''api'') ''/pets'' ''get'' example_options
       example_operation (getOperationName example_concat example_options) = Inr composed"
    using example_run by blast
  have "map_of (integrations example_options)
          (js_string (getOperationName example_concat example_options
             \<lparr>mp_path = ''/pets'', mp_method = ''get''\<rparr>)) =
        Some \<lparr>integration_function = IFunction ''listPetsHandler'',
              integration_authorizer = Some (CustomAuthorizer (IFunction ''authHandler'') ''petAuth'')\<rparr>"
    by (simp add: example_name js_string_def) (simp add: example_options_def)
  from effective_authorizer_order [OF run this]
  have "js_prop composed ''security'' = Some (JArr [JObj [(''petAuth'', JArr [])]])"
    by simp
  with run show ?thesis by blast
qed

text \<open>
  C5. If two identifiers of the operation lookup map to the same method and path, the
  reverse index resolves that method and path to the identifier of the later entry, the
  last one written to the index; the transform does not reject the collision: it throws
  exactly what it throws for the lookup without the earlier entry.
\<close>

theorem lookup_collision_last_wins:
  assumes "operationLookup options =
             before @ (earlier, methodAndPath) # between @ (later, methodAndPath) # after"
    and "\<forall>(name, mp) \<in> set after. concatMethodAndPath mp \<noteq> concatMethodAndPath methodAndPath"
  shows "getOperationName concatMethodAndPath options methodAndPath = Some later
    \<and> outcome (prepareApiSpec uri concatMethodAndPath schemes scope spec options) =
        outcome (prepareApiSpec uri concatMethodAndPath schemes scope spec
                   (options\<lparr>operationLookup := before @ between @ (later, methodAndPath) # after\<rparr>))"
proof
  have "operationLookup options =
          (before @ (earlier, methodAndPath) # between) @ (later, methodAndPath) # after"
    using assms(1) by simp
  then show "getOperationName concatMethodAndPath options methodAndPath = Some later"
    using assms(2) by (rule getOperationName_last_wins)
next
  have "options =
      options\<lparr>operationLookup :=
        before @ (earlier, methodAndPath) # between @ (later, methodAndPath) # after\<rparr>"
    using assms(1) by simp
  then have "getOperationName concatMethodAndPath options =
      getOperationName concatMethodAndPath
        (options\<lparr>operationLookup := before @ between @ (later, methodAndPath) # after\<rparr>)"
    using getOperationName_shadowed [where concatMethodAndPath = concatMethodAndPath
        and earlier_mp = methodAndPath and later_mp = methodAndPath and options = options
        and before = before and earlier = earlier and between = between and later = later
        and after = after]
    by simp
  then show "outcome (prepareApiSpec uri concatMethodAndPath schemes scope spec options) =
        outcome (prepareApiSpec uri concatMethodAndPath schemes scope spec
                   (options\<lparr>operationLookup := before @ between @ (later, methodAndPath) # after\<rparr>))"
    by (intro prepareApiSpec_outcome) simp_all
qed

theorem lookup_collision_last_wins_witness:
  "getOperationName example_concat options_collision \<lparr>mp_path = ''/pets'', mp_method = ''get''\<rparr> =
     Some ''listPets''
   \<and> outcome (prepareApiSpec example_uri example_concat example_schemes (Construct ''api'')
        example_spec options_collision) = None"
proof -
  have "operationLookup options_collision =
      [] @ (''listPetsOld'', \<lparr>mp_path = ''/pets'', mp_method = ''get''\<rparr>) # [] @
      (''listPets'', \<lparr>mp_path = ''/pets'', mp_method = ''get''\<rparr>) # []"
    by (simp add: options_collision_def)
  from lookup_collision_last_wins [OF this, of example_concat example_uri example_schemes
      "Construct ''api''" example_spec]
  have "getOperationName example_concat options_collision
          \<lparr>mp_path = ''/pets'', mp_method = ''get''\<rparr> = Some ''listPets''"
    and "outcome (prepareApiSpec example_uri example_concat example_schemes (Construct ''api'')
          example_spec options_collision) =
        outcome (prepareApiSpec example_uri example_concat example_schemes (Construct ''api'')
          example_spec
          (options_collision\<lparr>operationLookup :=
             [(''listPets'', \<lparr>mp_path = ''/pets'', mp_method = ''get''\<rparr>)]\<rparr>))"
    by simp_all
  moreover have "outcome (prepareApiSpec example_uri example_concat example_schemes
          (Construct ''api'') example_spec
          (options_collision\<lparr>operationLookup :=
             [(''listPets'', \<lparr>mp_path = ''/pets'', mp_method = ''get''\<rparr>)]\<rparr>)) = None"
    by (simp add: options_collision_def outcome_def run_defs example_defs)
  ultimately show ?thesis by simp
qed

text \<open>
  C6 fails on the code when the integrations mapping has an entry under the key
  \<^verbatim>\<open>undefined\<close>: the name lookup of a method absent from the reverse index yields
  undefined, which \<^verbatim>\<open>in\<close> and the property read turn into that key, and the method is
  composed with that entry instead of aborting.
\<close>

theorem failed_lookup_uses_undefined_key:
  "getOperationName example_concat options_undefined_key
     \<lparr>mp_path = ''/pets'', mp_method = ''get''\<rparr> = None
   \<and> result_path
       (prepareApiSpec example_uri example_concat example_schemes (Construct ''api'')
          example_get_only options_undefined_key)
       [''paths'', ''/pets'', ''get'', ''x-amazon-apigateway-integration'', ''uri''] =
     Some (JStr ''lambda:fallback'')"
  by (simp add: getOperationName_def operationNameByPath_def options_undefined_key_def
      fromEntries_def spread_def prepareApiSpec_def example_get_only_def preparePathSpec_def
      HttpMethods_def applyMethodIntegration_def js_string_def composeOperation_def
      generateCorsOptionsMethod_def HttpMethods_OPTIONS_def result_path_def example_uri_def
      methodAuthorizer_def Authorizers_none_def spread_entries_def gatewayResponses_def
      destructureIntegration_def invocationUri_def)

text \<open>
  C7, as stated, fails: with an empty list of allowed origins the transform returns a
  document, whose gateway response carries the header value made of two quotes.
\<close>

theorem empty_origins_counterexample:
  "allowOrigins cors_no_origins = []
   \<and> corsOptions options_no_origins = Some cors_no_origins
   \<and> result_path
       (prepareApiSpec example_uri example_concat example_schemes (Construct ''api'')
          example_spec options_no_origins)
       allowOriginParameter =
     Some (JStr [CHR 0x27, CHR 0x27])"
  by (simp add: cors_no_origins_def options_no_origins_def result_path_def allowOriginParameter_def
      run_defs example_defs)

text \<open>
  C7, amended. When CORS options are supplied with an empty list of allowed origins, the
  transform does not reject the policy: it throws exactly what it throws for any other
  list of origins, and a document it returns carries the Access-Control-Allow-Origin
  response value made of two quotes and nothing between them.
\<close>

theorem empty_origins_not_rejected:
  assumes "corsOptions options = Some c"
    and "allowOrigins c = []"
  shows "map_of (generateCorsResponseHeaders c) ''Access-Control-Allow-Origin'' =
           Some [CHR 0x27, CHR 0x27]
    \<and> (\<forall>origins.
          outcome (prepareApiSpec uri concatMethodAndPath schemes scope spec
                     (options\<lparr>corsOptions := Some (c\<lparr>allowOrigins := origins\<rparr>)\<rparr>)) =
          outcome (prepareApiSpec uri concatMethodAndPath schemes scope spec options))
    \<and> (\<forall>doc. prepareApiSpec uri concatMethodAndPath schemes scope spec options = Inr doc \<longrightarrow>
          js_path doc allowOriginParameter = Some (JStr [CHR 0x27, CHR 0x27]))"
proof (intro conjI allI impI)
  show "map_of (generateCorsResponseHeaders c) ''Access-Control-Allow-Origin'' =
      Some [CHR 0x27, CHR 0x27]"
    using assms(2) by (simp add: generateCorsResponseHeaders_def quoted_list_def)
next
  fix origins
  show "outcome (prepareApiSpec uri concatMethodAndPath schemes scope spec
                   (options\<lparr>corsOptions := Some (c\<lparr>allowOrigins := origins\<rparr>)\<rparr>)) =
        outcome (prepareApiSpec uri concatMethodAndPath schemes scope spec options)"
    by (rule prepareApiSpec_outcome) (simp_all add: getOperationName_corsOptions)
next
  fix doc
  assume "prepareApiSpec uri concatMethodAndPath schemes scope spec options = Inr doc"
  then have "js_prop doc ''x-amazon-apigateway-gateway-responses'' = Some (gatewayResponses options)"
    by (rule prepareApiSpec_gatewayResponses)
  then show "js_path doc allowOriginParameter = Some (JStr [CHR 0x27, CHR 0x27])"
    using gatewayResponses_allowOrigin [OF assms(1)] assms(2)
    by (simp add: allowOriginParameter_def quoted_list_def)
qed

theorem empty_origins_not_rejected_witness:
  "outcome (prepareApiSpec example_uri example_concat example_schemes (Construct ''api'')
      example_spec options_no_origins) = None
   \<and> outcome (prepareApiSpec example_uri example_concat example_schemes (Construct ''api'')
      example_spec
      (options_no_origins\<lparr>corsOptions :=
         Some (cors_no_origins\<lparr>allowOrigins := [''https://example.com'']\<rparr>)\<rparr>)) = None
   \<and> map_of (generateCorsResponseHeaders cors_no_origins) ''Access-Control-Allow-Origin'' =
       Some [CHR 0x27, CHR 0x27]"
proof -
  have run: "outcome (prepareApiSpec example_uri example_concat example_schemes (Construct ''api'')
      example_spec options_no_origins) = None"
    by (simp add: cors_no_origins_def options_no_origins_def outcome_def run_defs example_defs)
  have "corsOptions options_no_origins = Some cors_no_origins"
    by (simp add: options_no_origins_def)
  moreover have "allowOrigins cors_no_origins = []"
    by (simp add: cors_no_origins_def)
  ultimately show ?thesis
    using empty_origins_not_rejected [of options_no_origins cors_no_origins example_uri
        example_concat example_schemes "Construct ''api''" example_spec] run
    by simp
qed




text \<open>
  C9. A composed operation equals the original on every field other than the responses,
  the integration descriptor and the security requirement; a composed path item equals
  the original on every field that is not an HTTP method.
\<close>

theorem composition_frame:
  "(applyMethodIntegration uri scope path method options (JObj operation) name = Inr composed
      \<and> distinct (map fst operation)
      \<and> k \<notin> {''responses'', ''x-amazon-apigateway-integration'', ''security''}
    \<longrightarrow> js_prop composed k = map_of operation k)
   \<and> (preparePathSpec uri scope path (JObj item) options name = Inr composedItem
      \<and> distinct (map fst item)
      \<and> k \<notin> set HttpMethods
    \<longrightarrow> js_prop composedItem k = map_of item k)"
proof (intro conjI impI)
  assume a: "applyMethodIntegration uri scope path method options (JObj operation) name = Inr composed
      \<and> distinct (map fst operation)
      \<and> k \<notin> {''responses'', ''x-amazon-apigateway-integration'', ''security''}"
  from applyMethodIntegration_Inr [of uri scope path "method" options "JObj operation" name composed] a
  obtain integration :: OpenApiIntegration and responses where
    "composed =
       composeOperation (JObj operation) responses (uri scope (integration_function integration))
         (methodAuthorizer (integration_authorizer integration) options)"
    by blast
  then show "js_prop composed k = map_of operation k"
    using a by (simp add: composeOperation_other)
next
  assume a: "preparePathSpec uri scope path (JObj item) options name = Inr composedItem
      \<and> distinct (map fst item)
      \<and> k \<notin> set HttpMethods"
  then have "k \<noteq> ''options''" using options_in_HttpMethods by auto
  then have "map_of (optionsMethodOf item options) k = None" by (rule optionsMethodOf_other)
  from preparePathSpec_method [OF _ _ this, of uri scope path name composedItem] a
  show "js_prop composedItem k = map_of item k" by simp
qed

theorem composition_frame_witness:
  "\<exists>composed composedItem.
      applyMethodIntegration example_uri (Construct ''api'') ''/pets'' ''get'' example_options
        example_operation (getOperationName example_concat example_options) = Inr composed
    \<and> js_prop composed ''operationId'' = Some (JStr ''listPets'')
    \<and> preparePathSpec example_uri (Construct ''api'') ''/pets'' (JObj example_pathItem)
        example_options (getOperationName example_concat example_options) = Inr composedItem
    \<and> js_prop composedItem ''parameters'' = Some (JArr [])"
proof -
  obtain composed where run:
    "applyMethodIntegration example_uri (Construct ''api'') ''/pets'' ''get'' example_options
       example_operation (getOperationName example_concat example_options) = Inr composed"
    using example_run by blast
  obtain composedItem where path_run:
    "preparePathSpec example_uri (Construct ''api'') ''/pets'' (JObj example_pathItem)
       example_options (getOperationName example_concat example_options) = Inr composedItem"
    using example_path_run by blast
  let ?operation =
    "[(''operationId'', JStr ''listPets''),
      (''responses'',
         JObj
           [(''200'',
               JObj
                 [(''description'', JStr ''ok''),
                  (''headers'',
                     JObj
                       [(''Access-Control-Allow-Origin'', JObj [(''description'', JStr ''mine'')]),
                        (''X-Total'', JObj [])])])])]"
  have op: "example_operation = JObj ?operation" by (simp add: example_operation_def)
  from composition_frame [of example_uri "Construct ''api''" "''/pets''" "''get''" example_options
      ?operation "getOperationName example_concat example_options" composed "''operationId''"
      example_pathItem composedItem]
  have "js_prop composed ''operationId'' = Some (JStr ''listPets'')"
    using run by (simp add: op)
  moreover
  from composition_frame [of example_uri "Construct ''api''" "''/pets''" "''get''" example_options
      ?operation "getOperationName example_concat example_options" composed "''parameters''"
      example_pathItem composedItem]
  have "js_prop composedItem ''parameters'' = Some (JArr [])"
    using path_run by (simp add: example_pathItem_def HttpMethods_def)
  ultimately show ?thesis using run path_run by blast
qed

text \<open>
  C10. Whenever the preflight method is generated for a path, the generated operation is
  the \<^verbatim>\<open>options\<close> entry of the composed item and has no security requirement: it has none
  of the keys a security fragment writes, whatever the default authorizer of the options.
\<close>

theorem preflight_has_no_security:
  assumes "preparePathSpec uri scope path (JObj item) options name = Inr composedItem"
    and "distinct (map fst item)"
    and "corsOptions options = Some c"
    and "''options'' \<notin> fst ` set item"
  shows "generateCorsOptionsMethod (JObj item) options = Inr [(''options'', corsOptionsOperation c)]
    \<and> js_prop composedItem ''options'' = Some (corsOptionsOperation c)
    \<and> js_prop (corsOptionsOperation c) ''security'' = None
    \<and> (\<forall>a. fst ` set (applyMethodAuthorizer a) \<inter> fst ` set (js_entries (corsOptionsOperation c)) = {})"
proof -
  have "fst ` set (applyMethodAuthorizer a) \<inter> fst ` set (js_entries (corsOptionsOperation c)) = {}" for a
    using applyMethodAuthorizer_keys [of a] corsOptionsOperation_keys [of c]
    by (simp flip: set_map)
  moreover have "js_prop (corsOptionsOperation c) ''security'' = None"
    by (simp add: corsOptionsOperation_def)
  moreover have "generateCorsOptionsMethod (JObj item) options = Inr [(''options'', corsOptionsOperation c)]"
    using assms(3,4) by (simp add: generateCorsOptionsMethod_JObj optionsMethodOf_def)
  ultimately show ?thesis using preparePathSpec_generated [OF assms] by blast
qed

theorem preflight_has_no_security_witness:
  "\<exists>composedItem.
      preparePathSpec example_uri (Construct ''api'') ''/pets'' (JObj example_pathItem)
        example_options (getOperationName example_concat example_options) = Inr composedItem
    \<and> defaultAuthorizer example_options = Some IamAuthorizer
    \<and> js_prop composedItem ''options'' = Some (corsOptionsOperation example_cors)
    \<and> js_prop (corsOptionsOperation example_cors) ''security'' = None"
proof -
  obtain composedItem where run:
    "preparePathSpec example_uri (Construct ''api'') ''/pets'' (JObj example_pathItem)
       example_options (getOperationName example_concat example_options) = Inr composedItem"
    using example_path_run by blast
  have "distinct (map fst example_pathItem)" by (simp add: example_pathItem_def)
  moreover have "corsOptions example_options = Some example_cors"
    by (simp add: example_options_def)
  moreover have "''options'' \<notin> fst ` set example_pathItem"
    by (simp add: example_pathItem_def)
  ultimately have "js_prop composedItem ''options'' = Some (corsOptionsOperation example_cors)
    \<and> js_prop (corsOptionsOperation example_cors) ''security'' = None"
    using preflight_has_no_security [OF run] by blast
  moreover have "defaultAuthorizer example_options = Some IamAuthorizer"
    by (simp add: example_options_def)
  ultimately show ?thesis using run by blast
qed

end
